theory Spec2Isabelle
  imports
    Main
    "HOL-Library.Sublist"
    "HOL-Library.Char_ord"
    "HOL-Library.List_Lexorder"
begin

section \<open>The EEG viewer page (app/pages/eeg\_plotly\_viewer.py)\<close>

text \<open>
  The page is a script that runs top to bottom on every interaction. The model follows it
  section by section: the static tables, the scan of the data directory, the subject list,
  the file name, the local-or-remote load, the channel descriptions, the chart and the
  electrode overlay. Python exceptions are values of \<open>py_exception\<close>; a Python \<open>str\<close> is a
  \<open>string\<close> holding its UTF-8 bytes; a \<open>dict\<close> literal is an association list in the order
  the source writes it, read with \<open>map_of\<close>.
\<close>

subsection \<open>Exceptions and Python string helpers\<close>

datatype py_exception =
    KeyError string
  | FileNotFoundError string
  | ValueError string
  | LibraryError string

text \<open>\<open>d[k]\<close> on a dict: the value, or \<open>KeyError\<close>.\<close>

definition subscript :: "(string \<times> 'a) list \<Rightarrow> string \<Rightarrow> py_exception + 'a" where
  "subscript d k = (case map_of d k of None \<Rightarrow> Inl (KeyError k) | Some v \<Rightarrow> Inr v)"

text \<open>\<open>d.get(k, default)\<close>.\<close>

definition dict_get :: "(string \<times> 'a) list \<Rightarrow> string \<Rightarrow> 'a \<Rightarrow> 'a" where
  "dict_get d k dflt = (case map_of d k of None \<Rightarrow> dflt | Some v \<Rightarrow> v)"

text \<open>\<open>s.endswith(t)\<close>.\<close>

definition endswith :: "string \<Rightarrow> string \<Rightarrow> bool" where
  "endswith s t = suffix t s"

text \<open>
  \<open>s.split(sep)[0]\<close> for a one-character separator: the text before the first separator,
  the whole string when there is none.
\<close>

definition split_first :: "char \<Rightarrow> string \<Rightarrow> string" where
  "split_first sep s = takeWhile (\<lambda>c. c \<noteq> sep) s"

text \<open>
  \<open>s.replace(old, new)\<close> for a non-empty \<open>old\<close>: every occurrence, found left to right
  without overlap, is replaced.
\<close>

function replace :: "string \<Rightarrow> string \<Rightarrow> string \<Rightarrow> string" where
  "replace old new s =
     (if old \<noteq> [] \<and> prefix old s then new @ replace old new (drop (length old) s)
      else (case s of [] \<Rightarrow> [] | c # cs \<Rightarrow> c # replace old new cs))"
  by pat_completeness auto
termination
  by (relation "measure (\<lambda>(old, new, s). length s)") (auto simp: prefix_def)

subsection \<open>Static tables\<close>

definition HF_REPO :: string where
  "HF_REPO = ''aparker03/eeg-csv''"

definition CHANNEL_INFO :: "(string \<times> string) list" where
  "CHANNEL_INFO =
    [(''Fp1'', ''Frontopolar left (near forehead)''),
     (''Fp2'', ''Frontopolar right (near forehead)''),
     (''AF3'', ''Anterior frontal left''),
     (''AF4'', ''Anterior frontal right''),
     (''AF7'', ''Anterior frontal left (lateral)''),
     (''AF8'', ''Anterior frontal right (lateral)''),
     (''Fz'', ''Frontal midline''),
     (''F1'', ''Frontal left mid''),
     (''F2'', ''Frontal right mid''),
     (''F3'', ''Frontal left''),
     (''F4'', ''Frontal right''),
     (''FC1'', ''Frontal-central left''),
     (''FC2'', ''Frontal-central right''),
     (''Cz'', ''Central midline (top of head)''),
     (''C3'', ''Central left''),
     (''C4'', ''Central right''),
     (''CP1'', ''Central-parietal left''),
     (''CP2'', ''Central-parietal right''),
     (''Pz'', ''Parietal midline''),
     (''P3'', ''Parietal left''),
     (''P4'', ''Parietal right''),
     (''O1'', ''Occipital left (visual area)''),
     (''O2'', ''Occipital right (visual area)''),
     (''Oz'', ''Occipital midline''),
     (''T7'', ''Temporal left''),
     (''T8'', ''Temporal right''),
     (''POz'', ''Parieto-occipital midline'')]"

definition DATA_DIR :: string where
  "DATA_DIR = ''data/eeg_csv''"

definition cond_options :: "string list" where
  "cond_options = [''Normal Sleep (NS)'', ''Sleep Deprived (SD)'']"

definition task_options :: "string list" where
  "task_options = [''Eyes Open'', ''Eyes Closed'']"

definition cond_map :: "(string \<times> string) list" where
  "cond_map = [(''Normal Sleep (NS)'', ''ses-1''), (''Sleep Deprived (SD)'', ''ses-2'')]"

definition task_map :: "(string \<times> string) list" where
  "task_map = [(''Eyes Open'', ''eyesopen''), (''Eyes Closed'', ''eyesclosed'')]"

subsection \<open>Subjects and the file name\<close>

text \<open>\<open>csv_files = [f for f in os.listdir(DATA_DIR) if f.endswith(".csv")]\<close>, on the listing.\<close>

definition csv_files :: "string list \<Rightarrow> string list" where
  "csv_files listing = filter (\<lambda>f. endswith f ''.csv'') listing"

text \<open>
  \<open>subject_ids = sorted({f.split("_")[0].replace("sub-", "") for f in csv_files})\<close>:
  a set comprehension (no duplicates), then sorted by code point, which on UTF-8 bytes is
  the lexicographic order of the byte lists.
\<close>

definition subject_of :: "string \<Rightarrow> string" where
  "subject_of f = replace ''sub-'' [] (split_first CHR ''_'' f)"

definition subject_ids :: "string list \<Rightarrow> string list" where
  "subject_ids files = sort (remdups (map subject_of files))"

text \<open>
  Lines 64 to 67: \<open>subj_str\<close>, \<open>session_str\<close>, \<open>task_str\<close> and \<open>filename\<close>. The two dict
  subscripts raise \<open>KeyError\<close> on a label outside their table, the condition first.
\<close>

definition subj_str :: "string \<Rightarrow> string" where
  "subj_str selected_subj = ''sub-'' @ selected_subj"

definition session_str :: "string \<Rightarrow> py_exception + string" where
  "session_str selected_cond = subscript cond_map selected_cond"

definition task_str :: "string \<Rightarrow> py_exception + string" where
  "task_str selected_task = subscript task_map selected_task"

definition filename_of :: "string \<Rightarrow> string \<Rightarrow> string \<Rightarrow> string" where
  "filename_of subj session task = subj @ ''_'' @ session @ ''_'' @ task @ ''.csv''"

definition filename :: "string \<Rightarrow> string \<Rightarrow> string \<Rightarrow> py_exception + string" where
  "filename selected_subj selected_cond selected_task =
     (case session_str selected_cond of
        Inl e \<Rightarrow> Inl e
      | Inr session \<Rightarrow>
          (case task_str selected_task of
             Inl e \<Rightarrow> Inl e
           | Inr task \<Rightarrow> Inr (filename_of (subj_str selected_subj) session task)))"

subsection \<open>The data directory and the libraries the page calls\<close>

text \<open>
  The directory \<open>data/eeg_csv\<close> is the list of its entries, file name and bytes; \<open>None\<close>
  is a directory that does not exist. The entries are plain files: the model has no
  subdirectories.
\<close>

type_synonym directory = "(string \<times> string) list"

text \<open>A loaded DataFrame: the columns in file order, each a header and its values.\<close>

type_synonym 'v table = "(string \<times> 'v list) list"

text \<open>An RGBA pixel \<open>(r, g, b, a)\<close> and an image: its size and its pixels by coordinate.\<close>

type_synonym rgba = "nat \<times> nat \<times> nat \<times> nat"

definition alpha :: "rgba \<Rightarrow> nat" where
  "alpha c = (case c of (r, g, b, a) \<Rightarrow> a)"

record image =
  img_size :: "nat \<times> nat"
  img_pixel :: "nat \<times> nat \<Rightarrow> rgba"

text \<open>
  The page calls three libraries whose code is not part of the repository: huggingface\_hub,
  pandas and Pillow. What they compute is a parameter of the model; an error is the message
  of the exception raised.
  \<^item> \<open>hub repo_id name\<close>: the bytes of the object \<open>name\<close> of the remote dataset \<open>repo_id\<close>;
  \<^item> \<open>read_csv bytes\<close>: pandas' parser;
  \<^item> \<open>image_open path\<close>: \<open>Image.open(path).convert("RGBA")\<close>;
  \<^item> \<open>getcolor spec\<close>: Pillow's colour parser, applied by \<open>ImageDraw\<close> to a string \<open>fill\<close>;
  \<^item> \<open>draw_ellipse im box ink\<close>: the image after \<open>ImageDraw.Draw(im).ellipse(box, fill=ink)\<close>;
  \<^item> \<open>blend dst src\<close>: the pixel \<open>Image.alpha_composite\<close> computes from a pixel of its first
    and of its second argument.
\<close>

record 'v libs =
  hub :: "string \<Rightarrow> string \<Rightarrow> string + string"
  read_csv :: "string \<Rightarrow> string + 'v table"
  image_open :: "string \<Rightarrow> string + image"
  getcolor :: "string \<Rightarrow> string + rgba"
  draw_ellipse :: "image \<Rightarrow> int \<times> int \<times> int \<times> int \<Rightarrow> rgba \<Rightarrow> image"
  blend :: "rgba \<Rightarrow> rgba \<Rightarrow> rgba"

text \<open>\<open>os.listdir(DATA_DIR)\<close> on a directory that exists.\<close>

definition os_listdir :: "directory \<Rightarrow> string list" where
  "os_listdir d = map fst d"

text \<open>\<open>os.path.join(a, b)\<close> (POSIX).\<close>

definition os_path_join :: "string \<Rightarrow> string \<Rightarrow> string" where
  "os_path_join a b =
     (if prefix ''/'' b then b
      else if a = [] \<or> suffix ''/'' a then a @ b
      else a @ ''/'' @ b)"

text \<open>The entry of the data directory that a path names, if it names one.\<close>

definition entry_name :: "string \<Rightarrow> string option" where
  "entry_name p =
     (if prefix (DATA_DIR @ ''/'') p then Some (drop (length DATA_DIR + 1) p) else None)"

definition os_path_exists :: "directory \<Rightarrow> string \<Rightarrow> bool" where
  "os_path_exists d p = (case entry_name p of None \<Rightarrow> False | Some n \<Rightarrow> map_of d n \<noteq> None)"

definition read_bytes :: "directory \<Rightarrow> string \<Rightarrow> py_exception + string" where
  "read_bytes d p =
     (case entry_name p of
        None \<Rightarrow> Inl (FileNotFoundError p)
      | Some n \<Rightarrow> (case map_of d n of None \<Rightarrow> Inl (FileNotFoundError p) | Some bytes \<Rightarrow> Inr bytes))"

text \<open>Writing a file of the data directory: a new entry, or new bytes for an old one.\<close>

fun write_entry :: "directory \<Rightarrow> string \<Rightarrow> string \<Rightarrow> directory" where
  "write_entry [] n bytes = [(n, bytes)]"
| "write_entry ((m, old) # d) n bytes =
     (if m = n then (n, bytes) # d else (m, old) # write_entry d n bytes)"

text \<open>
  Modelled from the spec: the content-store client \<open>hf_hub_download\<close> of the huggingface\_hub
  library, which is not code of the repository. Section 4.2 step 3: one fetch of the object
  named by the file name from the store, "writing the result into the local cache path
  before returning it"; a failure of the store is raised. With \<open>local_dir\<close> the file is
  stored as \<open>local_dir/filename\<close> and that path is returned.
\<close>

definition hf_hub_download ::
  "(string \<Rightarrow> string \<Rightarrow> string + string) \<Rightarrow> directory \<Rightarrow> string \<Rightarrow> string \<Rightarrow> string
     \<Rightarrow> string + (string \<times> directory)" where
  "hf_hub_download store d repo_id fname local_dir =
     (case store repo_id fname of
        Inl msg \<Rightarrow> Inl msg
      | Inr bytes \<Rightarrow> Inr (os_path_join local_dir fname, write_entry d fname bytes))"

subsection \<open>What the page shows\<close>

record 'v scatter =
  trace_x :: "'v list"
  trace_y :: "'v list"
  trace_mode :: string
  trace_name :: string

record 'v figure =
  fig_data :: "'v scatter list"
  fig_title :: string
  xaxis_title :: string
  yaxis_title :: string
  fig_height :: nat

datatype 'v element =
    Title string
  | Warning string
  | Error string
  | Info string
  | Markdown string
  | Selectbox string "string list"
  | Radio string "string list"
  | Multiselect string "string list" "string list"
  | Spinner string
  | Expander string "string list"
  | PlotlyChart "'v figure"
  | ImageShown image string

text \<open>How a run of the script ends: at its last line, at \<open>st.stop()\<close>, or by an exception.\<close>

datatype ending = Completed | Stopped | Raised py_exception

text \<open>
  What the user has chosen in the five widgets. \<open>u_channels = None\<close> is a channel picker the
  user has not touched, which returns its default.
\<close>

record user =
  u_subj :: string
  u_cond :: string
  u_task :: string
  u_channels :: "string list option"
  u_electrodes :: "string list"

subsection \<open>Loading the recording (lines 72 to 87)\<close>

record 'v fetched =
  f_shown :: "'v element list"
  f_requests :: "(string \<times> string) list"
  f_dir :: directory
  f_result :: "ending + 'v table"

text \<open>\<open>df = pd.read_csv(file_path)\<close>.\<close>

definition load :: "'v libs \<Rightarrow> directory \<Rightarrow> string \<Rightarrow> ending + 'v table" where
  "load L d file_path =
     (case read_bytes d file_path of
        Inl e \<Rightarrow> Inl (Raised e)
      | Inr bytes \<Rightarrow>
          (case read_csv L bytes of
             Inl msg \<Rightarrow> Inl (Raised (LibraryError msg))
           | Inr df \<Rightarrow> Inr df))"

text \<open>
  The file is read from the directory when it is there; otherwise it is asked of the hub,
  once. \<open>f_requests\<close> lists the requests made, \<open>f_dir\<close> is the directory afterwards. A
  failed download shows the error and stops the script.
\<close>

definition fetch :: "'v libs \<Rightarrow> directory \<Rightarrow> string \<Rightarrow> 'v fetched" where
  "fetch L d fname =
     (let file_path = os_path_join DATA_DIR fname in
      if \<not> os_path_exists d file_path then
        (let spinner = Spinner ([CHR 0xF0, CHR 0x9F, CHR 0x93, CHR 0xA1] @ '' Downloading '' @ fname
                                 @ '' from Hugging Face...'') in
         case hf_hub_download (hub L) d HF_REPO fname DATA_DIR of
           Inl e \<Rightarrow>
             \<lparr>f_shown = [spinner,
                         Error (''Failed to retrieve `'' @ fname @ ''` from Hugging Face: '' @ e)],
              f_requests = [(HF_REPO, fname)], f_dir = d, f_result = Inl Stopped\<rparr>
         | Inr (downloaded, d') \<Rightarrow>
             \<lparr>f_shown = [spinner], f_requests = [(HF_REPO, fname)], f_dir = d',
              f_result = load L d' downloaded\<rparr>)
      else \<lparr>f_shown = [], f_requests = [], f_dir = d, f_result = load L d file_path\<rparr>)"

subsection \<open>Channels: descriptions and chart (lines 88 to 116)\<close>

definition time_col :: string where
  "time_col = ''Time''"

definition eeg_channels :: "'v table \<Rightarrow> string list" where
  "eeg_channels df = filter (\<lambda>col. col \<noteq> time_col) (map fst df)"

text \<open>\<open>CHANNEL_INFO.get(ch, "No description available")\<close>.\<close>

definition describe :: "string \<Rightarrow> string" where
  "describe ch = dict_get CHANNEL_INFO ch ''No description available''"

text \<open>The lines of the expander.\<close>

definition channel_help :: "string list \<Rightarrow> string list" where
  "channel_help selected_channels =
     (if selected_channels \<noteq> [] then
        map (\<lambda>ch. ''**'' @ ch @ ''**: '' @ describe ch) selected_channels
      else [''Select a channel above to see its meaning.''])"

text \<open>
  The loop \<open>fig.add_trace(go.Scatter(x=df[time_col], y=df[ch], mode="lines", name=ch))\<close>;
  a column that is missing raises \<open>KeyError\<close>, the time column first.
\<close>

fun add_traces :: "'v table \<Rightarrow> string list \<Rightarrow> 'v scatter list \<Rightarrow> py_exception + 'v scatter list" where
  "add_traces df [] traces = Inr traces"
| "add_traces df (ch # chs) traces =
     (case subscript df time_col of
        Inl e \<Rightarrow> Inl e
      | Inr xs \<Rightarrow>
          (case subscript df ch of
             Inl e \<Rightarrow> Inl e
           | Inr ys \<Rightarrow>
               add_traces df chs
                 (traces @ [\<lparr>trace_x = xs, trace_y = ys, trace_mode = ''lines'', trace_name = ch\<rparr>])))"

definition render ::
  "'v table \<Rightarrow> string \<Rightarrow> string \<Rightarrow> string \<Rightarrow> string list \<Rightarrow> py_exception + 'v element" where
  "render df subj session task selected_channels =
     (if selected_channels \<noteq> [] then
        (case add_traces df selected_channels [] of
           Inl e \<Rightarrow> Inl e
         | Inr traces \<Rightarrow>
             Inr (PlotlyChart
               \<lparr>fig_data = traces,
                fig_title = ''EEG Signal '' @ [CHR 0xE2, CHR 0x80, CHR 0x93] @ '' '' @ subj @ '', ''
                              @ session @ '', '' @ task,
                xaxis_title = ''Time (s)'',
                yaxis_title = ''Amplitude ('' @ [CHR 0xCE, CHR 0xBC] @ ''V)'',
                fig_height = 600\<rparr>))
      else Inr (Info ''No EEG channels selected.''))"

subsection \<open>The electrode overlay (lines 120 to 162)\<close>

definition electrode_colors :: "(string \<times> string) list" where
  "electrode_colors =
     [(''FP1'', ''red''), (''AF3'', ''blue''), (''AF7'', ''green''), (''FZ'', ''orange''),
      (''F1'', ''purple'')]"

definition electrode_coords :: "(string \<times> int \<times> int) list" where
  "electrode_coords =
     [(''FP1'', (310, 90)), (''AF3'', (340, 125)), (''AF7'', (280, 130)), (''FZ'', (425, 150)),
      (''F1'', (385, 140))]"

text \<open>\<open>options=list(electrode_colors.keys())\<close>.\<close>

definition electrode_options :: "string list" where
  "electrode_options = map fst electrode_colors"

definition brain_path :: string where
  "brain_path = ''/Users/brandonfox/Downloads/Brain_image.png''"

text \<open>\<open>Image.new("RGBA", size, (255,255,255,0))\<close>.\<close>

definition image_new :: "nat \<times> nat \<Rightarrow> rgba \<Rightarrow> image" where
  "image_new sz c = \<lparr>img_size = sz, img_pixel = (\<lambda>p. c)\<rparr>"

text \<open>
  \<open>Image.alpha_composite(im1, im2)\<close>: both images are RGBA here; images of different sizes
  raise \<open>ValueError\<close>, otherwise each pixel is blended with the pixel above it.
\<close>

definition alpha_composite :: "'v libs \<Rightarrow> image \<Rightarrow> image \<Rightarrow> py_exception + image" where
  "alpha_composite L im1 im2 =
     (if img_size im1 \<noteq> img_size im2 then Inl (ValueError ''images do not match'')
      else Inr \<lparr>img_size = img_size im1,
                img_pixel = (\<lambda>p. blend L (img_pixel im1 p) (img_pixel im2 p))\<rparr>)"

text \<open>
  The loop over the selected electrodes: the coordinate is looked up first, then the colour;
  the fill is the colour name followed by \<open>80\<close>, a string, which \<open>ellipse\<close> hands to the
  colour parser before it draws.
\<close>

fun draw_selected :: "'v libs \<Rightarrow> image \<Rightarrow> string list \<Rightarrow> py_exception + image" where
  "draw_selected L overlay [] = Inr overlay"
| "draw_selected L overlay (elec # rest) =
     (case subscript electrode_coords elec of
        Inl e \<Rightarrow> Inl e
      | Inr (x, y) \<Rightarrow>
          (case subscript electrode_colors elec of
             Inl e \<Rightarrow> Inl e
           | Inr colour \<Rightarrow>
               (case getcolor L (colour @ ''80'') of
                  Inl msg \<Rightarrow> Inl (ValueError msg)
                | Inr ink \<Rightarrow>
                    draw_selected L
                      (draw_ellipse L overlay (x - 15, y - 15, x + 15, y + 15) ink) rest)))"

text \<open>Lines 141 to 159, on the opened image.\<close>

definition annotate :: "'v libs \<Rightarrow> image \<Rightarrow> string list \<Rightarrow> py_exception + image" where
  "annotate L brain_img selected_electrodes =
     (let overlay = image_new (img_size brain_img) (255, 255, 255, 0) in
      case draw_selected L overlay selected_electrodes of
        Inl e \<Rightarrow> Inl e
      | Inr drawn \<Rightarrow> alpha_composite L brain_img drawn)"

definition visualizer :: "'v libs \<Rightarrow> string list \<Rightarrow> 'v element list \<times> ending" where
  "visualizer L selected_electrodes =
     (let shown =
        [Markdown (''### '' @ [CHR 0xF0, CHR 0x9F, CHR 0xA7, CHR 0xA0] @ '' EEG Electrode Visualizer''),
         Multiselect ''Select EEG Electrodes to Highlight:'' electrode_options []] in
      case image_open L brain_path of
        Inl msg \<Rightarrow> (shown, Raised (LibraryError msg))
      | Inr brain_img \<Rightarrow>
          (case annotate L brain_img selected_electrodes of
             Inl e \<Rightarrow> (shown, Raised e)
           | Inr combined \<Rightarrow>
               (shown @ [ImageShown combined ''EEG Electrode Highlight''], Completed)))"

subsection \<open>The whole page\<close>

record 'v run =
  shown :: "'v element list"
  ended :: ending
  dir_after :: "directory option"
  requests :: "(string \<times> string) list"

definition page_title :: string where
  "page_title = [CHR 0xF0, CHR 0x9F, CHR 0xA7, CHR 0xA0] @ '' EEG Viewer (Plotly Interactive)''"

definition pickers :: "string list \<Rightarrow> 'v element list" where
  "pickers files =
     [Selectbox ([CHR 0xF0, CHR 0x9F, CHR 0x91, CHR 0xA4] @ '' Select Subject:'') (subject_ids files),
      Radio ([CHR 0xF0, CHR 0x9F, CHR 0x9B, CHR 0x8C] @ '' Select Condition:'') cond_options,
      Radio ([CHR 0xF0, CHR 0x9F, CHR 0x91, CHR 0x81, CHR 0xEF, CHR 0xB8, CHR 0x8F] @ '' Select Task:'')
        task_options]"

definition channel_picker :: "string list \<Rightarrow> 'v element" where
  "channel_picker channels =
     Multiselect ([CHR 0xF0, CHR 0x9F, CHR 0x8E, CHR 0x9A, CHR 0xEF, CHR 0xB8, CHR 0x8F]
                    @ '' Select EEG channels to plot:'') channels (take 5 channels)"

definition channel_expander :: "string list \<Rightarrow> 'v element" where
  "channel_expander selected_channels =
     Expander ([CHR 0xE2, CHR 0x84, CHR 0xB9, CHR 0xEF, CHR 0xB8, CHR 0x8F]
                 @ '' What do the EEG channels mean?'') (channel_help selected_channels)"

text \<open>The script from line 87 on, once the table is loaded.\<close>

definition show_table ::
  "'v libs \<Rightarrow> user \<Rightarrow> string \<Rightarrow> string \<Rightarrow> 'v table \<Rightarrow> 'v element list \<times> ending" where
  "show_table L U session task df =
     (let channels = eeg_channels df;
          selected_channels = (case u_channels U of None \<Rightarrow> take 5 channels | Some cs \<Rightarrow> cs);
          top = [channel_picker channels, channel_expander selected_channels] in
      case render df (subj_str (u_subj U)) session task selected_channels of
        Inl e \<Rightarrow> (top, Raised e)
      | Inr chart \<Rightarrow>
          (case visualizer L (u_electrodes U) of
             (below, how) \<Rightarrow> (top @ [chart] @ below, how)))"

definition page :: "'v libs \<Rightarrow> directory option \<Rightarrow> user \<Rightarrow> 'v run" where
  "page L w U =
     (case w of
        None \<Rightarrow>
          \<lparr>shown = [Title page_title], ended = Raised (FileNotFoundError DATA_DIR),
           dir_after = w, requests = []\<rparr>
      | Some d \<Rightarrow>
          (let files = csv_files (os_listdir d) in
           if files = [] then
             \<lparr>shown = [Title page_title, Warning ''No EEG CSV files found in `data/eeg_csv/`.''],
              ended = Stopped, dir_after = w, requests = []\<rparr>
           else
             (let top = Title page_title # pickers files in
              case session_str (u_cond U) of
                Inl e \<Rightarrow> \<lparr>shown = top, ended = Raised e, dir_after = w, requests = []\<rparr>
              | Inr session \<Rightarrow>
                  (case task_str (u_task U) of
                     Inl e \<Rightarrow> \<lparr>shown = top, ended = Raised e, dir_after = w, requests = []\<rparr>
                   | Inr task \<Rightarrow>
                       (let F = fetch L d (filename_of (subj_str (u_subj U)) session task) in
                        case f_result F of
                          Inl how \<Rightarrow>
                            \<lparr>shown = top @ f_shown F, ended = how, dir_after = Some (f_dir F),
                             requests = f_requests F\<rparr>
                        | Inr df \<Rightarrow>
                            (case show_table L U session task df of
                               (below, how) \<Rightarrow>
                                 \<lparr>shown = top @ f_shown F @ below, ended = how,
                                  dir_after = Some (f_dir F), requests = f_requests F\<rparr>))))))"

subsection \<open>Notions used to state the properties\<close>

text \<open>A trace that plots channel \<open>ch\<close> of the table against the time values \<open>ts\<close>.\<close>

definition trace_for :: "'v list \<Rightarrow> 'v table \<Rightarrow> string \<Rightarrow> 'v scatter \<Rightarrow> bool" where
  "trace_for ts df ch tr \<longleftrightarrow>
     trace_name tr = ch \<and> trace_mode tr = ''lines'' \<and> trace_x tr = ts
     \<and> map_of df ch = Some (trace_y tr)"

text \<open>
  The subject list as the specification words it: the leading token of each file name
  with a leading \<open>sub-\<close> stripped, without duplicates, sorted. It is compared with
  \<open>subject_ids\<close> below.
\<close>

definition strip_sub_prefix :: "string \<Rightarrow> string" where
  "strip_sub_prefix tok = (if prefix ''sub-'' tok then drop 4 tok else tok)"

definition subject_ids_spec :: "string list \<Rightarrow> string list" where
  "subject_ids_spec files =
     sort (remdups (map (\<lambda>f. strip_sub_prefix (split_first CHR ''_'' f)) files))"

subsection \<open>A sample installation\<close>

text \<open>
  One instance of the directory and of the libraries, on which the model is run below: a
  directory with one recording, a hub that holds one more, a reader that knows these two
  files, a colour parser that knows the five colour names of the page and rejects every
  other string, a rasteriser that fills the ellipse inscribed in the box, and source-over
  compositing on whole numbers.
\<close>

definition sample_csv :: string where
  "sample_csv = ''Time,Fp1,Fz,O1'' @ [CHR 0x0A] @ ''0,1,2,3'' @ [CHR 0x0A] @ ''1,4,5,6'' @ [CHR 0x0A]"

definition sample_table :: "int table" where
  "sample_table = [(''Time'', [0, 1]), (''Fp1'', [1, 4]), (''Fz'', [2, 5]), (''O1'', [3, 6])]"

definition sample_dir :: directory where
  "sample_dir = [(''sub-01_ses-1_eyesopen.csv'', sample_csv), (''notes.txt'', ''recordings'')]"

definition sample_hub :: "string \<Rightarrow> string \<Rightarrow> string + string" where
  "sample_hub repo_id name =
     (if repo_id = HF_REPO \<and> name = ''sub-01_ses-2_eyesclosed.csv'' then Inr sample_csv
      else Inl ''404 Client Error: Entry Not Found'')"

definition sample_read_csv :: "string \<Rightarrow> string + int table" where
  "sample_read_csv bytes =
     (if bytes = sample_csv then Inr sample_table else Inl ''Error tokenizing data'')"

definition sample_image :: image where
  "sample_image = image_new (850, 655) (200, 200, 200, 255)"

definition sample_image_open :: "string \<Rightarrow> string + image" where
  "sample_image_open p =
     (if p = brain_path then Inr sample_image else Inl ''No such file or directory'')"

definition sample_getcolor :: "string \<Rightarrow> string + rgba" where
  "sample_getcolor spec =
     (case map_of [(''red'', (255, 0, 0, 255)), (''blue'', (0, 0, 255, 255)),
                   (''green'', (0, 128, 0, 255)), (''orange'', (255, 165, 0, 255)),
                   (''purple'', (128, 0, 128, 255))] spec of
        Some c \<Rightarrow> Inr c
      | None \<Rightarrow> Inl (''unknown color specifier: '' @ spec))"

definition sample_ellipse :: "image \<Rightarrow> int \<times> int \<times> int \<times> int \<Rightarrow> rgba \<Rightarrow> image" where
  "sample_ellipse im box ink =
     (case box of (x0, y0, x1, y1) \<Rightarrow>
        im\<lparr>img_pixel :=
             (\<lambda>(px, py).
                if (2 * int px - x0 - x1)\<^sup>2 * (y1 - y0)\<^sup>2 + (2 * int py - y0 - y1)\<^sup>2 * (x1 - x0)\<^sup>2
                     \<le> (x1 - x0)\<^sup>2 * (y1 - y0)\<^sup>2
                then ink else img_pixel im (px, py))\<rparr>)"

definition sample_blend :: "rgba \<Rightarrow> rgba \<Rightarrow> rgba" where
  "sample_blend dst src =
     (case dst of (dr, dg, db, da) \<Rightarrow>
      case src of (sr, sg, sb, sa) \<Rightarrow>
        if sa = 0 then dst
        else (let w = da * (255 - sa); outa = sa * 255 + w in
              ((sr * sa * 255 + dr * w) div outa, (sg * sa * 255 + dg * w) div outa,
               (sb * sa * 255 + db * w) div outa, outa div 255)))"

definition sample_libs :: "int libs" where
  "sample_libs =
     \<lparr>hub = sample_hub, read_csv = sample_read_csv, image_open = sample_image_open,
      getcolor = sample_getcolor, draw_ellipse = sample_ellipse, blend = sample_blend\<rparr>"

definition sample_user :: "string \<Rightarrow> string \<Rightarrow> user" where
  "sample_user cond task =
     \<lparr>u_subj = ''01'', u_cond = cond, u_task = task, u_channels = Some [''Fp1'', ''O1''],
      u_electrodes = []\<rparr>"

section \<open>Properties\<close>

subsection \<open>Auxiliary facts\<close>

lemma subscript_Some: "map_of d k = Some v \<Longrightarrow> subscript d k = Inr v"
  by (simp add: subscript_def)

lemma replace_absent: "\<not> sublist old s \<Longrightarrow> replace old new s = s"
proof (induction old new s rule: replace.induct)
  case (1 old new s)
  show ?case
  proof (cases s)
    case Nil
    with 1 show ?thesis by (subst replace.simps) auto
  next
    case (Cons c cs)
    from 1(3) have np: "\<not> prefix old s" using prefix_imp_sublist by blast
    from 1(3) Cons have "\<not> sublist old cs" by (auto simp: sublist_Cons_right)
    with 1(2)[OF _ Cons] np have "replace old new cs = cs" by auto
    with np Cons show ?thesis by (subst replace.simps) auto
  qed
qed

lemma entry_name_join: "\<not> prefix ''/'' n \<Longrightarrow> entry_name (os_path_join DATA_DIR n) = Some n"
  by (simp add: entry_name_def os_path_join_def DATA_DIR_def suffix_def)

lemma filename_relative: "filename s c t = Inr fname \<Longrightarrow> \<not> prefix ''/'' fname"
  by (auto simp: filename_def filename_of_def subj_str_def split: sum.splits)

lemma filename_parts:
  "filename s c t = Inr fname \<Longrightarrow>
     \<exists>ses tsk. session_str c = Inr ses \<and> task_str t = Inr tsk
       \<and> fname = filename_of (subj_str s) ses tsk"
  by (auto simp: filename_def split: sum.splits)

lemma map_of_write_entry:
  "map_of (write_entry d n b) k = (if k = n then Some b else map_of d k)"
  by (induction d n b rule: write_entry.induct) auto

lemma exists_iff:
  "\<not> prefix ''/'' n \<Longrightarrow> os_path_exists d (os_path_join DATA_DIR n) = (map_of d n \<noteq> None)"
  by (simp add: os_path_exists_def entry_name_join)

lemma read_bytes_join:
  "\<not> prefix ''/'' n \<Longrightarrow>
     read_bytes d (os_path_join DATA_DIR n) =
       (case map_of d n of
          None \<Rightarrow> Inl (FileNotFoundError (os_path_join DATA_DIR n))
        | Some b \<Rightarrow> Inr b)"
  by (simp add: read_bytes_def entry_name_join)

text \<open>The three ways \<open>fetch\<close> goes: the file is there, it is downloaded, the download fails.\<close>

lemma fetch_local:
  assumes "\<not> prefix ''/'' n" and "map_of d n = Some b"
  shows "fetch L d n =
           \<lparr>f_shown = [], f_requests = [], f_dir = d,
            f_result = (case read_csv L b of
                          Inl msg \<Rightarrow> Inl (Raised (LibraryError msg))
                        | Inr df \<Rightarrow> Inr df)\<rparr>"
  using assms by (simp add: fetch_def exists_iff load_def read_bytes_join)

lemma fetch_remote_ok:
  assumes "\<not> prefix ''/'' n" and "map_of d n = None" and "hub L HF_REPO n = Inr b"
  shows "fetch L d n =
           \<lparr>f_shown = [Spinner ([CHR 0xF0, CHR 0x9F, CHR 0x93, CHR 0xA1] @ '' Downloading '' @ n
                                   @ '' from Hugging Face...'')],
            f_requests = [(HF_REPO, n)], f_dir = write_entry d n b,
            f_result = (case read_csv L b of
                          Inl msg \<Rightarrow> Inl (Raised (LibraryError msg))
                        | Inr df \<Rightarrow> Inr df)\<rparr>"
  using assms
  by (simp add: fetch_def exists_iff load_def read_bytes_join hf_hub_download_def
        map_of_write_entry)

lemma fetch_remote_fail:
  assumes "\<not> prefix ''/'' n" and "map_of d n = None" and "hub L HF_REPO n = Inl cause"
  shows "fetch L d n =
           \<lparr>f_shown = [Spinner ([CHR 0xF0, CHR 0x9F, CHR 0x93, CHR 0xA1] @ '' Downloading '' @ n
                                   @ '' from Hugging Face...''),
                       Error (''Failed to retrieve `'' @ n @ ''` from Hugging Face: '' @ cause)],
            f_requests = [(HF_REPO, n)], f_dir = d, f_result = Inl Stopped\<rparr>"
  using assms by (simp add: fetch_def exists_iff hf_hub_download_def)

lemma channel_is_column:
  assumes "X \<in> set (eeg_channels df)"
  shows "\<exists>ys. map_of df X = Some ys"
proof -
  from assms have "X \<in> fst ` set df" by (simp add: eeg_channels_def)
  then have "map_of df X \<noteq> None" by (simp add: map_of_eq_None_iff)
  then show ?thesis by blast
qed

lemma add_traces_ok:
  assumes time: "map_of df time_col = Some ts"
  shows "set chs \<subseteq> set (eeg_channels df) \<Longrightarrow>
         \<exists>new. add_traces df chs acc = Inr (acc @ new) \<and> list_all2 (trace_for ts df) chs new"
proof (induction chs arbitrary: acc)
  case Nil
  then show ?case by simp
next
  case (Cons ch chs)
  from Cons.prems have ch: "ch \<in> set (eeg_channels df)"
    and rest: "set chs \<subseteq> set (eeg_channels df)"
    by simp_all
  from channel_is_column[OF ch] obtain ys where ys: "map_of df ch = Some ys" ..
  define tr where "tr = \<lparr>trace_x = ts, trace_y = ys, trace_mode = ''lines'', trace_name = ch\<rparr>"
  from Cons.IH[OF rest, of "acc @ [tr]"] obtain new where
    new: "add_traces df chs (acc @ [tr]) = Inr ((acc @ [tr]) @ new)"
      and all: "list_all2 (trace_for ts df) chs new"
    by blast
  have step: "add_traces df (ch # chs) acc = add_traces df chs (acc @ [tr])"
    by (simp add: subscript_Some[OF time] subscript_Some[OF ys] tr_def)
  have tr: "trace_for ts df ch tr"
    by (simp add: trace_for_def tr_def ys)
  have "add_traces df (ch # chs) acc = Inr (acc @ (tr # new))"
    using step new by simp
  moreover have "list_all2 (trace_for ts df) (ch # chs) (tr # new)"
    using tr all by simp
  ultimately show ?case by blast
qed

lemma offered_lookup:
  assumes "e \<in> set electrode_options"
  shows "\<exists>x y c. subscript electrode_coords e = Inr (x, y) \<and> subscript electrode_colors e = Inr c
           \<and> c \<in> snd ` set electrode_colors"
  using assms
  by (auto simp: electrode_options_def electrode_colors_def electrode_coords_def subscript_def)

lemma draw_selected_no_KeyError:
  "set sel \<subseteq> set electrode_options \<Longrightarrow> draw_selected L ov sel \<noteq> Inl (KeyError k)"
proof (induction sel arbitrary: ov)
  case Nil
  then show ?case by simp
next
  case (Cons e sel)
  then obtain x y c where
    l: "subscript electrode_coords e = Inr (x, y)" "subscript electrode_colors e = Inr c"
    using offered_lookup[of e] by auto
  from Cons show ?case using l by (auto split: sum.splits)
qed

lemma split_first_token:
  "sep \<notin> set tok \<Longrightarrow> split_first sep (tok @ sep # rest) = tok"
  by (auto simp: split_first_def takeWhile_tail)

lemma subject_of_conventional:
  assumes "CHR ''_'' \<notin> set subj" and "\<not> sublist ''sub-'' subj"
  shows "subject_of (''sub-'' @ subj @ ''_'' @ rest) = subj"
proof -
  have "CHR ''_'' \<notin> set (''sub-'' @ subj)" using assms(1) by simp
  then have "split_first CHR ''_'' ((''sub-'' @ subj) @ CHR ''_'' # rest) = ''sub-'' @ subj"
    by (rule split_first_token)
  then have tok: "split_first CHR ''_'' (''sub-'' @ subj @ ''_'' @ rest) = ''sub-'' @ subj"
    by simp
  have "replace ''sub-'' [] (''sub-'' @ subj) = replace ''sub-'' [] subj"
    by (subst replace.simps) simp
  also have "\<dots> = subj" using assms(2) by (rule replace_absent)
  finally show ?thesis unfolding subject_of_def tok .
qed

lemma sample_key:
  "filename ''01'' ''Sleep Deprived (SD)'' ''Eyes Closed'' = Inr ''sub-01_ses-2_eyesclosed.csv''"
  by (simp add: filename_def filename_of_def subj_str_def session_str_def task_str_def
        subscript_def cond_map_def task_map_def)

lemma sample_first_fetch:
  "fetch sample_libs sample_dir ''sub-01_ses-2_eyesclosed.csv'' =
     \<lparr>f_shown = [Spinner ([CHR 0xF0, CHR 0x9F, CHR 0x93, CHR 0xA1]
                            @ '' Downloading sub-01_ses-2_eyesclosed.csv from Hugging Face...'')],
      f_requests = [(HF_REPO, ''sub-01_ses-2_eyesclosed.csv'')],
      f_dir = sample_dir @ [(''sub-01_ses-2_eyesclosed.csv'', sample_csv)],
      f_result = Inr sample_table\<rparr>"
proof -
  have rel: "\<not> prefix ''/'' ''sub-01_ses-2_eyesclosed.csv''" by simp
  have none: "map_of sample_dir ''sub-01_ses-2_eyesclosed.csv'' = None"
    by (simp add: sample_dir_def)
  have hub: "hub sample_libs HF_REPO ''sub-01_ses-2_eyesclosed.csv'' = Inr sample_csv"
    by (simp add: sample_libs_def sample_hub_def)
  have w: "write_entry sample_dir ''sub-01_ses-2_eyesclosed.csv'' sample_csv
             = sample_dir @ [(''sub-01_ses-2_eyesclosed.csv'', sample_csv)]"
    by (simp add: sample_dir_def)
  have r: "read_csv sample_libs sample_csv = Inr sample_table"
    by (simp add: sample_libs_def sample_read_csv_def)
  show ?thesis using fetch_remote_ok[OF rel none hub] w r by simp
qed

subsection \<open>The file name (claim C1)\<close>

text \<open>
  C1, as the code has it. For every subject and every condition and task offered by the two
  pickers, \<open>filename\<close> is \<open>sub-{subject}_{session}_{task}.csv\<close>: the session code is \<open>ses-1\<close>
  for Normal Sleep (NS) and \<open>ses-2\<close> for Sleep Deprived (SD), the task code is \<open>eyesopen\<close> for
  Eyes Open and \<open>eyesclosed\<close> for Eyes Closed, and the name ends in \<open>.csv\<close>. The result is a
  function of the three selections alone.
\<close>

theorem filename_pattern:
  assumes "selected_cond \<in> set cond_options" and "selected_task \<in> set task_options"
  shows "filename subj selected_cond selected_task =
           Inr (''sub-'' @ subj @ ''_''
                @ (if selected_cond = ''Normal Sleep (NS)'' then ''ses-1'' else ''ses-2'') @ ''_''
                @ (if selected_task = ''Eyes Open'' then ''eyesopen'' else ''eyesclosed'')
                @ ''.csv'')"
  using assms
  by (auto simp: filename_def filename_of_def subj_str_def session_str_def task_str_def
        subscript_def cond_map_def task_map_def cond_options_def task_options_def)

text \<open>The theorem at subject 01, Sleep Deprived (SD), Eyes Closed.\<close>

theorem filename_pattern_witness:
  "''Sleep Deprived (SD)'' \<in> set cond_options \<and> ''Eyes Closed'' \<in> set task_options
   \<and> filename ''01'' ''Sleep Deprived (SD)'' ''Eyes Closed'' = Inr ''sub-01_ses-2_eyesclosed.csv''"
  using filename_pattern[of "''Sleep Deprived (SD)''" "''Eyes Closed''" "''01''"]
  by (simp add: cond_options_def task_options_def)

text \<open>
  C1 as the claim words it, the key being exactly \<open>sub-{subject}_{session}_{task}\<close>, fails:
  for subject 01, Normal Sleep (NS), Eyes Open the name built is not \<open>sub-01_ses-1_eyesopen\<close>.
\<close>

theorem filename_key_counterexample:
  "filename ''01'' ''Normal Sleep (NS)'' ''Eyes Open'' \<noteq> Inr ''sub-01_ses-1_eyesopen''"
  by (simp add: filename_def filename_of_def subj_str_def session_str_def task_str_def
        subscript_def cond_map_def task_map_def)

subsection \<open>Loading is idempotent (claim C2)\<close>

text \<open>
  C2. For the file name of any selection: the hub is asked if and only if the file is not in
  the data directory, and then once, for that name; a download that succeeds leaves the
  bytes received at the path of the file; and whenever the first load did not stop on a
  failed download, a second load from the directory it left, with the same reader and any
  hub, asks nothing of the hub, leaves the directory as it is and returns the same result.
\<close>

theorem fetch_idempotent:
  assumes key: "filename subj c t = Inr fname"
  shows "(f_requests (fetch L d fname) \<noteq> [] \<longleftrightarrow>
            \<not> os_path_exists d (os_path_join DATA_DIR fname))
    \<and> (f_requests (fetch L d fname) = [] \<or> f_requests (fetch L d fname) = [(HF_REPO, fname)])
    \<and> (\<forall>bytes. \<not> os_path_exists d (os_path_join DATA_DIR fname)
                 \<and> hub L HF_REPO fname = Inr bytes \<longrightarrow>
          read_bytes (f_dir (fetch L d fname)) (os_path_join DATA_DIR fname) = Inr bytes)
    \<and> (f_result (fetch L d fname) \<noteq> Inl Stopped \<and> read_csv L' = read_csv L \<longrightarrow>
          fetch L' (f_dir (fetch L d fname)) fname =
            \<lparr>f_shown = [], f_requests = [], f_dir = f_dir (fetch L d fname),
             f_result = f_result (fetch L d fname)\<rparr>)"
proof -
  have rel: "\<not> prefix ''/'' fname" using key by (rule filename_relative)
  show ?thesis
  proof (cases "map_of d fname")
    case (Some b)
    show ?thesis
      using fetch_local[OF rel Some, of L] fetch_local[OF rel Some, of L'] Some
      by (simp add: exists_iff[OF rel])
  next
    case None
    show ?thesis
    proof (cases "hub L HF_REPO fname")
      case (Inl cause)
      show ?thesis using fetch_remote_fail[OF rel None Inl] None Inl
        by (simp add: exists_iff[OF rel])
    next
      case (Inr b)
      have w: "map_of (write_entry d fname b) fname = Some b" by (simp add: map_of_write_entry)
      show ?thesis using fetch_remote_ok[OF rel None Inr] fetch_local[OF rel w, of L'] None Inr
        by (simp add: exists_iff[OF rel] read_bytes_join[OF rel] map_of_write_entry)
    qed
  qed
qed

text \<open>
  The theorem on the sample installation: the recording of subject 01, Sleep Deprived (SD),
  Eyes Closed is not in the directory, is downloaded, and is read from the directory the
  second time.
\<close>

theorem fetch_idempotent_witness:
  "filename ''01'' ''Sleep Deprived (SD)'' ''Eyes Closed'' = Inr ''sub-01_ses-2_eyesclosed.csv''
   \<and> \<not> os_path_exists sample_dir (os_path_join DATA_DIR ''sub-01_ses-2_eyesclosed.csv'')
   \<and> hub sample_libs HF_REPO ''sub-01_ses-2_eyesclosed.csv'' = Inr sample_csv
   \<and> f_requests (fetch sample_libs sample_dir ''sub-01_ses-2_eyesclosed.csv'')
       = [(HF_REPO, ''sub-01_ses-2_eyesclosed.csv'')]
   \<and> f_result (fetch sample_libs sample_dir ''sub-01_ses-2_eyesclosed.csv'') = Inr sample_table
   \<and> read_bytes (f_dir (fetch sample_libs sample_dir ''sub-01_ses-2_eyesclosed.csv''))
         (os_path_join DATA_DIR ''sub-01_ses-2_eyesclosed.csv'') = Inr sample_csv
   \<and> fetch sample_libs (f_dir (fetch sample_libs sample_dir ''sub-01_ses-2_eyesclosed.csv''))
         ''sub-01_ses-2_eyesclosed.csv''
       = \<lparr>f_shown = [], f_requests = [],
          f_dir = sample_dir @ [(''sub-01_ses-2_eyesclosed.csv'', sample_csv)],
          f_result = Inr sample_table\<rparr>"
proof -
  have hub: "hub sample_libs HF_REPO ''sub-01_ses-2_eyesclosed.csv'' = Inr sample_csv"
    by (simp add: sample_libs_def sample_hub_def)
  have absent:
    "\<not> os_path_exists sample_dir (os_path_join DATA_DIR ''sub-01_ses-2_eyesclosed.csv'')"
    by (simp add: exists_iff sample_dir_def)
  show ?thesis
    using fetch_idempotent[OF sample_key, of sample_libs sample_dir sample_libs]
      sample_key sample_first_fetch hub absent
    by simp
qed

subsection \<open>A failed download (claim C3)\<close>

text \<open>
  C3. When the data directory holds at least one CSV file, the file of the selection is not
  in it and the hub fails for that file, whatever the cause, the page shows the title and the
  three pickers, then the download notice and one error message that ends with the text of
  the cause, and stops: no channel picker, no chart and no image are shown, no table is
  read, the hub was asked once, and the directory is as it was.
\<close>

theorem download_failure_stops:
  assumes files: "csv_files (os_listdir d) \<noteq> []"
    and key: "filename (u_subj U) (u_cond U) (u_task U) = Inr fname"
    and absent: "\<not> os_path_exists d (os_path_join DATA_DIR fname)"
    and fails: "hub L HF_REPO fname = Inl cause"
  shows "page L (Some d) U =
           \<lparr>shown = Title page_title # pickers (csv_files (os_listdir d))
                      @ [Spinner ([CHR 0xF0, CHR 0x9F, CHR 0x93, CHR 0xA1] @ '' Downloading '' @ fname
                                   @ '' from Hugging Face...''),
                         Error (''Failed to retrieve `'' @ fname @ ''` from Hugging Face: '' @ cause)],
            ended = Stopped, dir_after = Some d, requests = [(HF_REPO, fname)]\<rparr>"
proof -
  have rel: "\<not> prefix ''/'' fname" using key by (rule filename_relative)
  from absent have none: "map_of d fname = None" by (simp add: exists_iff[OF rel])
  obtain ses tsk where p: "session_str (u_cond U) = Inr ses" "task_str (u_task U) = Inr tsk"
      "fname = filename_of (subj_str (u_subj U)) ses tsk"
    using filename_parts[OF key] by blast
  have F: "fetch L d (filename_of (subj_str (u_subj U)) ses tsk) =
      \<lparr>f_shown = [Spinner ([CHR 0xF0, CHR 0x9F, CHR 0x93, CHR 0xA1] @ '' Downloading '' @ fname
                                   @ '' from Hugging Face...''),
                         Error (''Failed to retrieve `'' @ fname @ ''` from Hugging Face: '' @ cause)],
       f_requests = [(HF_REPO, fname)], f_dir = d, f_result = Inl Stopped\<rparr>"
    using fetch_remote_fail[OF rel none fails] p(3) by simp
  show ?thesis using files p(1,2) by (simp add: page_def F)
qed

text \<open>
  The theorem on the sample installation: subject 01, Sleep Deprived (SD), Eyes Open, a
  recording that neither the directory nor the hub holds.
\<close>

theorem download_failure_stops_witness:
  "csv_files (os_listdir sample_dir) \<noteq> []
   \<and> filename (u_subj (sample_user ''Sleep Deprived (SD)'' ''Eyes Open''))
        (u_cond (sample_user ''Sleep Deprived (SD)'' ''Eyes Open''))
        (u_task (sample_user ''Sleep Deprived (SD)'' ''Eyes Open''))
       = Inr ''sub-01_ses-2_eyesopen.csv''
   \<and> \<not> os_path_exists sample_dir (os_path_join DATA_DIR ''sub-01_ses-2_eyesopen.csv'')
   \<and> hub sample_libs HF_REPO ''sub-01_ses-2_eyesopen.csv'' = Inl ''404 Client Error: Entry Not Found''
   \<and> ended (page sample_libs (Some sample_dir) (sample_user ''Sleep Deprived (SD)'' ''Eyes Open''))
       = Stopped
   \<and> requests (page sample_libs (Some sample_dir) (sample_user ''Sleep Deprived (SD)'' ''Eyes Open''))
       = [(HF_REPO, ''sub-01_ses-2_eyesopen.csv'')]
   \<and> dir_after (page sample_libs (Some sample_dir) (sample_user ''Sleep Deprived (SD)'' ''Eyes Open''))
       = Some sample_dir"
proof -
  have h1: "csv_files (os_listdir sample_dir) \<noteq> []"
    by (simp add: csv_files_def os_listdir_def sample_dir_def endswith_def suffix_def)
  have h2: "filename (u_subj (sample_user ''Sleep Deprived (SD)'' ''Eyes Open''))
        (u_cond (sample_user ''Sleep Deprived (SD)'' ''Eyes Open''))
        (u_task (sample_user ''Sleep Deprived (SD)'' ''Eyes Open''))
       = Inr ''sub-01_ses-2_eyesopen.csv''"
    by (simp add: sample_user_def filename_def filename_of_def subj_str_def session_str_def
          task_str_def subscript_def cond_map_def task_map_def)
  have h3: "\<not> os_path_exists sample_dir (os_path_join DATA_DIR ''sub-01_ses-2_eyesopen.csv'')"
    by (simp add: exists_iff sample_dir_def)
  have h4: "hub sample_libs HF_REPO ''sub-01_ses-2_eyesopen.csv''
              = Inl ''404 Client Error: Entry Not Found''"
    by (simp add: sample_libs_def sample_hub_def)
  have r: "ended R = Stopped \<and> requests R = q \<and> dir_after R = w"
    if "R = \<lparr>shown = s, ended = Stopped, dir_after = w, requests = q\<rparr>" for R :: "int run" and s q w
    using that by simp
  from r[OF download_failure_stops[OF h1 h2 h3 h4]] h1 h2 h3 h4
  show ?thesis by blast
qed

subsection \<open>The chart (claim C4)\<close>

text \<open>
  C4. For a table with a Time column: with no channel selected, the page shows the notice
  \<open>No EEG channels selected.\<close> instead of a chart; with one channel X selected, a column of
  the table other than Time, it shows one chart with exactly one trace, whose x values are
  the Time column and whose y values are column X, in file order; with several such channels
  selected it shows one chart with one trace per channel, in the order selected, each over
  the same Time values.
\<close>

theorem render_channels:
  assumes time: "map_of df time_col = Some ts"
    and cols: "set chs \<subseteq> set (eeg_channels df)"
  shows "render df subj session task [] = Inr (Info ''No EEG channels selected.'')
    \<and> (\<forall>X ys. X \<in> set (eeg_channels df) \<and> map_of df X = Some ys \<longrightarrow>
          render df subj session task [X] =
            Inr (PlotlyChart
              \<lparr>fig_data = [\<lparr>trace_x = ts, trace_y = ys, trace_mode = ''lines'', trace_name = X\<rparr>],
               fig_title = ''EEG Signal '' @ [CHR 0xE2, CHR 0x80, CHR 0x93] @ '' '' @ subj @ '', ''
                             @ session @ '', '' @ task,
               xaxis_title = ''Time (s)'',
               yaxis_title = ''Amplitude ('' @ [CHR 0xCE, CHR 0xBC] @ ''V)'',
               fig_height = 600\<rparr>))
    \<and> (chs \<noteq> [] \<longrightarrow>
          (\<exists>fig. render df subj session task chs = Inr (PlotlyChart fig)
             \<and> list_all2 (trace_for ts df) chs (fig_data fig)))"
proof -
  have empty: "render df subj session task [] = Inr (Info ''No EEG channels selected.'')"
    by (simp add: render_def)
  have one: "render df subj session task [X] =
            Inr (PlotlyChart
              \<lparr>fig_data = [\<lparr>trace_x = ts, trace_y = ys, trace_mode = ''lines'', trace_name = X\<rparr>],
               fig_title = ''EEG Signal '' @ [CHR 0xE2, CHR 0x80, CHR 0x93] @ '' '' @ subj @ '', ''
                             @ session @ '', '' @ task,
               xaxis_title = ''Time (s)'',
               yaxis_title = ''Amplitude ('' @ [CHR 0xCE, CHR 0xBC] @ ''V)'',
               fig_height = 600\<rparr>)"
    if "map_of df X = Some ys" for X ys
  proof -
    have "add_traces df [X] [] =
            Inr [\<lparr>trace_x = ts, trace_y = ys, trace_mode = ''lines'', trace_name = X\<rparr>]"
      by (simp add: subscript_Some[OF time] subscript_Some[OF that])
    then show ?thesis unfolding render_def by simp
  qed
  have many: "\<exists>fig. render df subj session task chs = Inr (PlotlyChart fig)
             \<and> list_all2 (trace_for ts df) chs (fig_data fig)" if ne: "chs \<noteq> []"
  proof -
    from add_traces_ok[OF time cols, of "[]"] obtain new where
      new: "add_traces df chs [] = Inr new" and all: "list_all2 (trace_for ts df) chs new"
      by auto
    have "render df subj session task chs =
       Inr (PlotlyChart \<lparr>fig_data = new,
               fig_title = ''EEG Signal '' @ [CHR 0xE2, CHR 0x80, CHR 0x93] @ '' '' @ subj @ '', ''
                             @ session @ '', '' @ task,
               xaxis_title = ''Time (s)'',
               yaxis_title = ''Amplitude ('' @ [CHR 0xCE, CHR 0xBC] @ ''V)'',
               fig_height = 600\<rparr>)"
      unfolding render_def using ne new by simp
    with all show ?thesis by simp
  qed
  from empty one many show ?thesis by blast
qed

text \<open>The theorem on the sample table, for the selections Fz and Fp1, O1.\<close>

theorem render_channels_witness:
  "map_of sample_table time_col = Some [0, 1]
   \<and> set [''Fp1'', ''O1''] \<subseteq> set (eeg_channels sample_table)
   \<and> ''Fz'' \<in> set (eeg_channels sample_table) \<and> map_of sample_table ''Fz'' = Some [2, 5]
   \<and> [''Fp1'', ''O1''] \<noteq> []
   \<and> render sample_table ''sub-01'' ''ses-1'' ''eyesopen'' [''Fz''] =
       Inr (PlotlyChart
         \<lparr>fig_data = [\<lparr>trace_x = [0, 1], trace_y = [2, 5], trace_mode = ''lines'',
                       trace_name = ''Fz''\<rparr>],
          fig_title = ''EEG Signal '' @ [CHR 0xE2, CHR 0x80, CHR 0x93] @ '' '' @ ''sub-01'' @ '', ''
                        @ ''ses-1'' @ '', '' @ ''eyesopen'',
          xaxis_title = ''Time (s)'',
          yaxis_title = ''Amplitude ('' @ [CHR 0xCE, CHR 0xBC] @ ''V)'',
          fig_height = 600\<rparr>)
   \<and> (\<exists>fig. render sample_table ''sub-01'' ''ses-1'' ''eyesopen'' [''Fp1'', ''O1'']
               = Inr (PlotlyChart fig)
           \<and> list_all2 (trace_for [0, 1] sample_table) [''Fp1'', ''O1''] (fig_data fig))"
proof -
  have h1: "map_of sample_table time_col = Some [0, 1]"
    by (simp add: sample_table_def time_col_def)
  have h2: "set [''Fp1'', ''O1''] \<subseteq> set (eeg_channels sample_table)"
    by (simp add: sample_table_def eeg_channels_def time_col_def)
  have h3: "''Fz'' \<in> set (eeg_channels sample_table) \<and> map_of sample_table ''Fz'' = Some [2, 5]"
    by (simp add: sample_table_def eeg_channels_def time_col_def)
  have h4: "[''Fp1'', ''O1''] \<noteq> ([] :: string list)" by simp
  from render_channels[OF h1 h2, of "''sub-01''" "''ses-1''" "''eyesopen''"] h1 h2 h3 h4
  show ?thesis by blast
qed

subsection \<open>Drawing the selected electrodes (claim C5)\<close>

text \<open>
  C5, evaluated. The fill handed to \<open>ellipse\<close> is the colour name followed by \<open>80\<close>
  (\<open>red80\<close>, \<open>blue80\<close>, \<open>green80\<close>, \<open>orange80\<close>, \<open>purple80\<close>). Whenever the colour parser rejects
  these five strings, as Pillow's does (it knows colour names, \<open>#\<close> followed by hexadecimal
  digits, and the \<open>rgb\<close>, \<open>hsl\<close> and \<open>hsv\<close> forms), every non-empty selection from the offered
  electrodes ends in \<open>ValueError\<close> at the first electrode: no marker is drawn and no image is
  produced.
\<close>

theorem annotate_fill_rejected:
  assumes rej: "\<forall>c \<in> snd ` set electrode_colors. \<exists>msg. getcolor L (c @ ''80'') = Inl msg"
    and ne: "sel \<noteq> []"
    and off: "set sel \<subseteq> set electrode_options"
  shows "\<exists>msg. annotate L base sel = Inl (ValueError msg)"
proof -
  from ne obtain e rest where sel: "sel = e # rest" by (cases sel) auto
  with off have "e \<in> set electrode_options" by simp
  then obtain x y c where l: "subscript electrode_coords e = Inr (x, y)"
     "subscript electrode_colors e = Inr c" "c \<in> snd ` set electrode_colors"
    using offered_lookup[of e] by auto
  with rej obtain msg where "getcolor L (c @ ''80'') = Inl msg" by blast
  then show ?thesis using l sel by (simp add: annotate_def)
qed

text \<open>The theorem on the sample installation, for the selection FP1.\<close>

theorem annotate_fill_rejected_witness:
  "getcolor sample_libs ''red80'' = Inl ''unknown color specifier: red80''
   \<and> set [''FP1''] \<subseteq> set electrode_options
   \<and> (\<exists>msg. annotate sample_libs sample_image [''FP1''] = Inl (ValueError msg))"
proof -
  have h1: "\<forall>c \<in> snd ` set electrode_colors. \<exists>msg. getcolor sample_libs (c @ ''80'') = Inl msg"
    by (simp add: electrode_colors_def sample_libs_def sample_getcolor_def)
  have h2: "[''FP1''] \<noteq> ([] :: string list)" by simp
  have h3: "set [''FP1''] \<subseteq> set electrode_options"
    by (simp add: electrode_options_def electrode_colors_def)
  have red: "getcolor sample_libs ''red80'' = Inl ''unknown color specifier: red80''"
    by (simp add: sample_libs_def sample_getcolor_def)
  from annotate_fill_rejected[OF h1 h2 h3, of sample_image] h3 red show ?thesis by blast
qed

subsection \<open>No electrode selected (claim C6)\<close>

text \<open>
  C6. With no electrode selected nothing is drawn on the overlay, which stays fully
  transparent; provided compositing a fully transparent pixel over a pixel leaves that pixel
  as it is, the image returned is the base image itself: the same size and the same pixel at
  every coordinate.
\<close>

theorem annotate_empty_selection:
  assumes "\<forall>dst src. alpha src = 0 \<longrightarrow> blend L dst src = dst"
  shows "annotate L base [] = Inr base"
proof -
  have "alpha (255, 255, 255, 0) = 0" by (simp add: alpha_def)
  with assms have "blend L dst (255, 255, 255, 0) = dst" for dst
    by blast
  then show ?thesis
    by (simp add: annotate_def image_new_def alpha_composite_def)
qed

text \<open>The theorem on the sample installation.\<close>

theorem annotate_empty_selection_witness:
  "alpha (255, 255, 255, 0) = 0
   \<and> blend sample_libs (200, 200, 200, 255) (255, 255, 255, 0) = (200, 200, 200, 255)
   \<and> annotate sample_libs sample_image [] = Inr sample_image"
proof -
  have h: "\<forall>dst src. alpha src = 0 \<longrightarrow> blend sample_libs dst src = dst"
    by (simp add: sample_libs_def sample_blend_def alpha_def split: prod.splits)
  have a: "alpha (255, 255, 255, 0) = 0" by (simp add: alpha_def)
  from annotate_empty_selection[OF h, of sample_image] h a show ?thesis by blast
qed

subsection \<open>Channel descriptions (claim C7)\<close>

text \<open>
  C7, as the code has it. \<open>describe\<close> returns the text \<open>No description available\<close>, with a
  capital N, for a label that is not in the channel catalogue, and the catalogue's own
  description for a label that is; Fp1 is described as \<open>Frontopolar left (near forehead)\<close>.
\<close>

theorem describe_catalog:
  "(map_of CHANNEL_INFO ch = None \<longrightarrow> describe ch = ''No description available'')
   \<and> (\<forall>d. map_of CHANNEL_INFO ch = Some d \<longrightarrow> describe ch = d)
   \<and> describe ''Fp1'' = ''Frontopolar left (near forehead)''"
proof -
  have "describe ''Fp1'' = ''Frontopolar left (near forehead)''"
    by (simp add: describe_def dict_get_def CHANNEL_INFO_def)
  then show ?thesis by (simp add: describe_def dict_get_def)
qed

text \<open>The theorem at A1, which the catalogue does not list, and at Cz, which it does.\<close>

theorem describe_catalog_witness:
  "map_of CHANNEL_INFO ''A1'' = None \<and> describe ''A1'' = ''No description available''
   \<and> map_of CHANNEL_INFO ''Cz'' = Some ''Central midline (top of head)''
   \<and> describe ''Cz'' = ''Central midline (top of head)''"
proof -
  have a: "map_of CHANNEL_INFO ''A1'' = None" by (simp add: CHANNEL_INFO_def)
  have c: "map_of CHANNEL_INFO ''Cz'' = Some ''Central midline (top of head)''"
    by (simp add: CHANNEL_INFO_def)
  show ?thesis using describe_catalog[of "''A1''"] describe_catalog[of "''Cz''"] a c by simp
qed

text \<open>
  C7 as the claim words it, the fallback being \<open>no description available\<close> in lower case,
  fails at A1.
\<close>

theorem describe_fallback_counterexample:
  "map_of CHANNEL_INFO ''A1'' = None \<and> describe ''A1'' \<noteq> ''no description available''"
  by (simp add: describe_def dict_get_def CHANNEL_INFO_def)

subsection \<open>Offered electrodes have coordinates and colours (claim C8)\<close>

text \<open>
  C8. The electrodes offered in the picker are exactly those of the coordinate table; for
  each of them the coordinate lookup and the colour lookup both succeed; so for a selection
  drawn from the offered electrodes, \<open>annotate\<close> never ends in \<open>KeyError\<close>.
\<close>

theorem offered_electrodes_known:
  "set electrode_options = fst ` set electrode_coords
   \<and> (\<forall>e \<in> set electrode_options.
         (\<exists>xy. subscript electrode_coords e = Inr xy) \<and> (\<exists>c. subscript electrode_colors e = Inr c))
   \<and> (set sel \<subseteq> set electrode_options \<longrightarrow> (\<forall>k. annotate L base sel \<noteq> Inl (KeyError k)))"
proof (intro conjI ballI impI allI)
  show "set electrode_options = fst ` set electrode_coords"
    by (simp add: electrode_options_def electrode_colors_def electrode_coords_def)
next
  fix e assume "e \<in> set electrode_options"
  then show "\<exists>xy. subscript electrode_coords e = Inr xy" using offered_lookup[of e] by auto
next
  fix e assume "e \<in> set electrode_options"
  then show "\<exists>c. subscript electrode_colors e = Inr c" using offered_lookup[of e] by auto
next
  fix k assume "set sel \<subseteq> set electrode_options"
  then show "annotate L base sel \<noteq> Inl (KeyError k)"
    using draw_selected_no_KeyError[of sel L _ k]
    by (auto simp: annotate_def alpha_composite_def Let_def split: sum.splits)
qed

text \<open>The theorem on the sample installation, for the selection FP1, FZ.\<close>

theorem offered_electrodes_known_witness:
  "set [''FP1'', ''FZ''] \<subseteq> set electrode_options
   \<and> ''FZ'' \<in> set electrode_options
   \<and> (\<exists>xy. subscript electrode_coords ''FZ'' = Inr xy)
   \<and> (\<exists>c. subscript electrode_colors ''FZ'' = Inr c)
   \<and> (\<forall>k. annotate sample_libs sample_image [''FP1'', ''FZ''] \<noteq> Inl (KeyError k))"
proof -
  have h: "set [''FP1'', ''FZ''] \<subseteq> set electrode_options"
    by (simp add: electrode_options_def electrode_colors_def)
  have m: "''FZ'' \<in> set electrode_options"
    by (simp add: electrode_options_def electrode_colors_def)
  from offered_electrodes_known[of "[''FP1'', ''FZ'']" sample_libs sample_image] h m
  show ?thesis by blast
qed

subsection \<open>No recordings (claim C9)\<close>

text \<open>
  C9. When the data directory exists and holds no file whose name ends in \<open>.csv\<close>, the page
  shows its title and the warning \<open>No EEG CSV files found in `data/eeg_csv/`.\<close> and stops:
  no picker is shown, no file name is built, the hub is not asked, nothing is read or drawn,
  and the directory is as it was.
\<close>

theorem no_csv_stops:
  assumes "csv_files (os_listdir d) = []"
  shows "page L (Some d) U =
           \<lparr>shown = [Title page_title, Warning ''No EEG CSV files found in `data/eeg_csv/`.''],
            ended = Stopped, dir_after = Some d, requests = []\<rparr>"
  using assms by (simp add: page_def)

text \<open>The theorem on a directory that holds only a text file.\<close>

theorem no_csv_stops_witness:
  "csv_files (os_listdir [(''notes.txt'', ''recordings'')]) = []
   \<and> page sample_libs (Some [(''notes.txt'', ''recordings'')])
        (sample_user ''Normal Sleep (NS)'' ''Eyes Open'')
       = \<lparr>shown = [Title page_title, Warning ''No EEG CSV files found in `data/eeg_csv/`.''],
          ended = Stopped, dir_after = Some [(''notes.txt'', ''recordings'')], requests = []\<rparr>"
proof -
  have h: "csv_files (os_listdir [(''notes.txt'', ''recordings'')]) = []"
    by (simp add: csv_files_def os_listdir_def endswith_def suffix_Cons)
  from no_csv_stops[OF h] h show ?thesis by blast
qed

subsection \<open>The subject list (claim C10)\<close>

text \<open>
  Whatever the file names, the subject list is sorted in ascending order and has no
  duplicates, and it holds exactly the subjects of the files.
\<close>

lemma subject_ids_sorted_and_distinct:
  "sorted (subject_ids files) \<and> distinct (subject_ids files)
   \<and> set (subject_ids files) = subject_of ` set files"
  by (simp add: subject_ids_def)

text \<open>
  C10, evaluated. The claim takes the subject of a file to be its leading token with the
  \<open>sub-\<close> prefix stripped; line 53 removes \<open>sub-\<close> wherever it occurs in the token. On the
  CSV file \<open>sub-sub-01_ses-1_eyesopen.csv\<close> the two differ: the code lists the subject \<open>01\<close>,
  the claim's reading lists \<open>sub-01\<close>. For the subject \<open>01\<close> the file name built on line 67
  is \<open>sub-01_ses-1_eyesopen.csv\<close>, which is not the file the subject was read from; for the
  subject \<open>sub-01\<close> it is that file.
\<close>

theorem subject_ids_replace_divergence:
  "csv_files [''sub-sub-01_ses-1_eyesopen.csv''] = [''sub-sub-01_ses-1_eyesopen.csv'']
   \<and> subject_ids [''sub-sub-01_ses-1_eyesopen.csv''] = [''01'']
   \<and> subject_ids_spec [''sub-sub-01_ses-1_eyesopen.csv''] = [''sub-01'']
   \<and> filename ''01'' ''Normal Sleep (NS)'' ''Eyes Open'' = Inr ''sub-01_ses-1_eyesopen.csv''
   \<and> filename ''sub-01'' ''Normal Sleep (NS)'' ''Eyes Open''
         = Inr ''sub-sub-01_ses-1_eyesopen.csv''"
proof -
  have a1: "csv_files [''sub-sub-01_ses-1_eyesopen.csv''] = [''sub-sub-01_ses-1_eyesopen.csv'']"
    by (simp add: csv_files_def endswith_def suffix_def)
  have a2: "subject_ids [''sub-sub-01_ses-1_eyesopen.csv''] = [''01'']"
    by code_simp
  have a3: "subject_ids_spec [''sub-sub-01_ses-1_eyesopen.csv''] = [''sub-01'']"
    by code_simp
  have a4: "filename ''01'' ''Normal Sleep (NS)'' ''Eyes Open'' = Inr ''sub-01_ses-1_eyesopen.csv''"
    by (simp add: filename_def filename_of_def subj_str_def session_str_def task_str_def
          subscript_def cond_map_def task_map_def)
  have a5: "filename ''sub-01'' ''Normal Sleep (NS)'' ''Eyes Open''
         = Inr ''sub-sub-01_ses-1_eyesopen.csv''"
    by (simp add: filename_def filename_of_def subj_str_def session_str_def task_str_def
          subscript_def cond_map_def task_map_def)
  from a1 a2 a3 a4 a5 show ?thesis by blast
qed

end
